theory Spec2Isabelle
  imports Complex_Main
begin

section \<open>JavaScript values of the client (public/app.js)\<close>

text \<open>
  The task objects of the client are JavaScript objects decoded from JSON. The fields
  whose run-time type the client changes (\<open>startTime\<close>, \<open>duration\<close>) are
  modelled as tagged values. Numbers are finite doubles idealised as reals; a Date is
  held by its time value (milliseconds since the epoch).
\<close>

datatype jsval =
    JUndefined
  | JNull
  | JBool bool
  | JNum real
  | JStr string
  | JDate real

text \<open>
  The built-ins \<open>Number(v)\<close> and \<open>new Date(v)\<close> belong to the language, not to the
  repository; they are parameters of the model, so that every result below holds for
  whatever they compute.
\<close>

record builtins =
  Number_of :: "jsval \<Rightarrow> real"
  Date_of :: "jsval \<Rightarrow> real"

text \<open>
  Identifiers (\<open>_id\<close>, \<open>id\<close>, \<open>tempId\<close>) are JSON strings or \<open>undefined\<close>
  (\<open>None\<close>); on these \<open>===\<close> is equality. Field \<open>mongo_id\<close> is the source's
  \<open>_id\<close>, field \<open>plain_id\<close> the source's \<open>id\<close>.
\<close>

record task =
  mongo_id :: "string option"
  plain_id :: "string option"
  title :: string
  startTime :: jsval
  duration :: jsval
  color :: string
  status :: string
  tempId :: "string option"

definition truthy :: "string option \<Rightarrow> bool" where
  "truthy v = (case v of None \<Rightarrow> False | Some s \<Rightarrow> s \<noteq> [])"

definition js_or :: "string option \<Rightarrow> string option \<Rightarrow> string option" where
  "js_or a b = (if truthy a then a else b)"

text \<open>\<open>normalizeTask\<close> (app.js, lines 355-363).\<close>

definition normalizeTask :: "builtins \<Rightarrow> task \<Rightarrow> task" where
  "normalizeTask B task =
     task\<lparr> plain_id := js_or (mongo_id task) (plain_id task),
           mongo_id := js_or (mongo_id task) (plain_id task),
           startTime := JDate (Date_of B (startTime task)),
           duration := JNum (Number_of B (duration task)) \<rparr>"

section \<open>Array helpers\<close>

text \<open>\<open>Array.prototype.findIndex\<close>: the first index whose element satisfies the
  predicate; \<open>None\<close> stands for \<open>-1\<close>.\<close>

fun findIndex :: "('a \<Rightarrow> bool) \<Rightarrow> 'a list \<Rightarrow> nat option" where
  "findIndex P [] = None"
| "findIndex P (x # xs) = (if P x then Some 0 else map_option Suc (findIndex P xs))"

text \<open>\<open>xs.splice(index, 1)\<close>: remove the element at \<open>index\<close>.\<close>

definition splice1 :: "nat \<Rightarrow> 'a list \<Rightarrow> 'a list" where
  "splice1 index xs = take index xs @ drop (Suc index) xs"

section \<open>State of the TimelineTaskManager\<close>

record manager =
  tasks :: "task list"
  selectedTask :: "task option"
  editingTask :: "task option"
  pendingCreations :: "string set"
  currentTime :: real
  zoomLevel :: real
  pixelsPerHour :: real
  timelineOffset :: real

text \<open>The constructor (app.js, lines 186-204); \<open>now\<close> is the clock reading.\<close>

definition init_manager :: "real \<Rightarrow> manager" where
  "init_manager now =
     \<lparr> tasks = [], selectedTask = None, editingTask = None, pendingCreations = {},
       currentTime = now, zoomLevel = 1, pixelsPerHour = 120, timelineOffset = 0 \<rparr>"

section \<open>Broadcast handlers\<close>

text \<open>\<open>handleTaskCreated\<close> (lines 305-313).\<close>

definition handleTaskCreated :: "builtins \<Rightarrow> task \<Rightarrow> manager \<Rightarrow> manager" where
  "handleTaskCreated B task s =
     (case findIndex (\<lambda>t. mongo_id t = mongo_id task) (tasks s) of
        None \<Rightarrow> s\<lparr> tasks := tasks s @ [normalizeTask B task] \<rparr>
      | Some existingIndex \<Rightarrow> s)"

text \<open>\<open>handleTaskUpdated\<close> (lines 315-322).\<close>

definition handleTaskUpdated :: "builtins \<Rightarrow> task \<Rightarrow> manager \<Rightarrow> manager" where
  "handleTaskUpdated B task s =
     (case findIndex (\<lambda>t. mongo_id t = mongo_id task) (tasks s) of
        Some index \<Rightarrow> s\<lparr> tasks := (tasks s)[index := normalizeTask B task] \<rparr>
      | None \<Rightarrow> s)"

text \<open>\<open>handleTaskDeleted\<close> (lines 324-334); the argument is \<open>data.id\<close>.\<close>

definition handleTaskDeleted :: "string option \<Rightarrow> manager \<Rightarrow> manager" where
  "handleTaskDeleted data_id s =
     (case findIndex (\<lambda>t. mongo_id t = data_id) (tasks s) of
        Some index \<Rightarrow>
          s\<lparr> tasks := splice1 index (tasks s),
             selectedTask :=
               (case selectedTask s of
                  None \<Rightarrow> None
                | Some sel \<Rightarrow> if mongo_id sel = data_id then None else Some sel) \<rparr>
      | None \<Rightarrow> s)"

text \<open>\<open>handleTimeUpdate\<close> (lines 336-339).\<close>

definition handleTimeUpdate :: "builtins \<Rightarrow> jsval \<Rightarrow> manager \<Rightarrow> manager" where
  "handleTimeUpdate B data_currentTime s = s\<lparr> currentTime := Date_of B data_currentTime \<rparr>"

text \<open>The messages of the push channel, by their \<open>type\<close> field; \<open>Other\<close> is the
  \<open>default\<close> branch.\<close>

datatype ws_message =
    TaskCreated task
  | TaskUpdated task
  | TaskDeleted "string option"
  | TimeUpdate jsval
  | TimelineSynced
  | Other string

text \<open>\<open>handleWebSocketMessage\<close> (lines 269-302).\<close>

fun handleWebSocketMessage :: "builtins \<Rightarrow> ws_message \<Rightarrow> manager \<Rightarrow> manager" where
  "handleWebSocketMessage B (TaskCreated data) s =
     (case tempId data of
        None \<Rightarrow> handleTaskCreated B data s
      | Some T \<Rightarrow>
          if T \<noteq> [] \<and> T \<in> pendingCreations s
          then s\<lparr> pendingCreations := pendingCreations s - {T} \<rparr>
          else handleTaskCreated B data s)"
| "handleWebSocketMessage B (TaskUpdated data) s = handleTaskUpdated B data s"
| "handleWebSocketMessage B (TaskDeleted data_id) s = handleTaskDeleted data_id s"
| "handleWebSocketMessage B (TimeUpdate t) s = handleTimeUpdate B t s"
| "handleWebSocketMessage B TimelineSynced s = s"
| "handleWebSocketMessage B (Other ty) s = s"

section \<open>Requests of the client (APIService and TimelineTaskManager)\<close>

text \<open>
  \<open>APIService.createTask\<close> (lines 60-82) builds the temporary identifier
  \<^verbatim>\<open>temp-${Date.now()}-${Math.random().toString(36).substr(2, 9)}\<close>;
  the two interpolated strings are arguments.
\<close>

definition make_tempId :: "string \<Rightarrow> string \<Rightarrow> string" where
  "make_tempId now_digits random_digits = ''temp-'' @ now_digits @ ''-'' @ random_digits"

text \<open>The request is asynchronous: \<open>createTask_request\<close> is the part of
  \<open>createTask\<close> that runs before the \<open>await\<close>, \<open>createTask_settled\<close> the
  clean-up that runs after it, on success and on error alike.\<close>

definition createTask_request :: "string \<Rightarrow> manager \<Rightarrow> manager" where
  "createTask_request T s = s\<lparr> pendingCreations := insert T (pendingCreations s) \<rparr>"

definition createTask_settled :: "string \<Rightarrow> manager \<Rightarrow> manager" where
  "createTask_settled T s = s\<lparr> pendingCreations := pendingCreations s - {T} \<rparr>"

text \<open>\<open>saveTaskToAPI\<close> (lines 367-399), create branch, once the server has answered
  with \<open>newTask\<close>.\<close>

definition saveTaskToAPI_created :: "builtins \<Rightarrow> string \<Rightarrow> task \<Rightarrow> manager \<Rightarrow> manager" where
  "saveTaskToAPI_created B T newTask s =
     (let s1 = createTask_settled T s in
      case find (\<lambda>t. mongo_id t = mongo_id newTask) (tasks s1) of
        None \<Rightarrow> s1\<lparr> tasks := tasks s1 @ [normalizeTask B newTask] \<rparr>
      | Some exists \<Rightarrow> s1)"

text \<open>\<open>saveTaskToAPI\<close>, update branch, once the server has answered with
  \<open>updatedTask\<close>. Reading \<open>this.editingTask._id\<close> when the modal has been closed
  meanwhile throws; the \<open>catch\<close> leaves the cache as it is.\<close>

definition saveTaskToAPI_updated :: "builtins \<Rightarrow> task \<Rightarrow> manager \<Rightarrow> manager" where
  "saveTaskToAPI_updated B updatedTask s =
     (case editingTask s of
        None \<Rightarrow> s
      | Some e \<Rightarrow>
          (case findIndex (\<lambda>t. mongo_id t = mongo_id e) (tasks s) of
             Some index \<Rightarrow> s\<lparr> tasks := (tasks s)[index := normalizeTask B updatedTask] \<rparr>
           | None \<Rightarrow> s))"

text \<open>\<open>deleteTaskFromAPI\<close> (lines 402-424), once the server has confirmed.\<close>

definition deleteTaskFromAPI_done :: "string option \<Rightarrow> manager \<Rightarrow> manager" where
  "deleteTaskFromAPI_done taskId s =
     (let s1 = (case findIndex (\<lambda>t. mongo_id t = taskId) (tasks s) of
                  Some index \<Rightarrow> s\<lparr> tasks := splice1 index (tasks s) \<rparr>
                | None \<Rightarrow> s)
      in case selectedTask s1 of
           None \<Rightarrow> s1
         | Some sel \<Rightarrow> if mongo_id sel = taskId then s1\<lparr> selectedTask := None \<rparr> else s1)"

text \<open>\<open>loadTasksFromAPI\<close> (lines 342-352); \<open>None\<close> is a failed request.\<close>

definition loadTasksFromAPI :: "builtins \<Rightarrow> task list option \<Rightarrow> manager \<Rightarrow> manager" where
  "loadTasksFromAPI B answer s =
     (case answer of
        Some ts \<Rightarrow> s\<lparr> tasks := map (normalizeTask B) ts \<rparr>
      | None \<Rightarrow> s)"

text \<open>What can happen to a manager: the answers of the server, the messages of the
  push channel, and the commands of the user that set \<open>editingTask\<close> and
  \<open>selectedTask\<close>. The drag handlers, which move the start time of an entry in
  place, are not part of the model.\<close>

datatype client_op =
    LoadTasks "task list option"
  | CreateRequest string string
  | CreateAnswer string "task option"
  | UpdateAnswer task
  | DeleteAnswer "string option"
  | Receive ws_message
  | OpenTaskModal "task option"
  | CloseTaskModal
  | SelectTask task

fun client_step :: "builtins \<Rightarrow> manager \<Rightarrow> client_op \<Rightarrow> manager" where
  "client_step B s (LoadTasks answer) = loadTasksFromAPI B answer s"
| "client_step B s (CreateRequest now_digits random_digits) =
     createTask_request (make_tempId now_digits random_digits) s"
| "client_step B s (CreateAnswer T (Some newTask)) = saveTaskToAPI_created B T newTask s"
| "client_step B s (CreateAnswer T None) = createTask_settled T s"
| "client_step B s (UpdateAnswer updatedTask) = saveTaskToAPI_updated B updatedTask s"
| "client_step B s (DeleteAnswer taskId) = deleteTaskFromAPI_done taskId s"
| "client_step B s (Receive m) = handleWebSocketMessage B m s"
| "client_step B s (OpenTaskModal t) = s\<lparr> editingTask := t \<rparr>"
| "client_step B s CloseTaskModal = s\<lparr> editingTask := None \<rparr>"
| "client_step B s (SelectTask t) = s\<lparr> selectedTask := Some t \<rparr>"

definition client_run :: "builtins \<Rightarrow> manager \<Rightarrow> client_op list \<Rightarrow> manager" where
  "client_run B s ops = foldl (client_step B) s ops"

text \<open>What \<open>normalizeTask\<close> establishes for one cache entry.\<close>

definition is_Date :: "jsval \<Rightarrow> bool" where
  "is_Date v = (case v of JDate d \<Rightarrow> True | _ \<Rightarrow> False)"

definition is_Number :: "jsval \<Rightarrow> bool" where
  "is_Number v = (case v of JNum n \<Rightarrow> True | _ \<Rightarrow> False)"

definition normalized :: "task \<Rightarrow> bool" where
  "normalized t \<longleftrightarrow> plain_id t = mongo_id t \<and> is_Date (startTime t) \<and> is_Number (duration t)"

text \<open>The task records an operation brings in from the server.\<close>

fun incoming :: "client_op \<Rightarrow> task list" where
  "incoming (LoadTasks (Some ts)) = ts"
| "incoming (CreateAnswer T (Some newTask)) = [newTask]"
| "incoming (UpdateAnswer updatedTask) = [updatedTask]"
| "incoming (Receive (TaskCreated data)) = [data]"
| "incoming (Receive (TaskUpdated data)) = [data]"
| "incoming op = []"

section \<open>Coordinate engine\<close>

text \<open>\<open>timeToX\<close> (lines 671-676) and \<open>xToTime\<close> (lines 678-683), over the reals.\<close>

definition timeToX :: "manager \<Rightarrow> real \<Rightarrow> real \<Rightarrow> real" where
  "timeToX s timestamp containerWidth =
     (let centerTime = currentTime s + timelineOffset s;
          timeDiff = timestamp - centerTime;
          pph = pixelsPerHour s * zoomLevel s
      in containerWidth / 2 + (timeDiff / 3600000) * pph)"

definition xToTime :: "manager \<Rightarrow> real \<Rightarrow> real \<Rightarrow> real" where
  "xToTime s x containerWidth =
     (let centerTime = currentTime s + timelineOffset s;
          pph = pixelsPerHour s * zoomLevel s;
          timeDiff = (x - containerWidth / 2) / pph * 3600000
      in centerTime + timeDiff)"

text \<open>\<open>jumpToCurrentTime\<close>, \<open>zoomIn\<close>, \<open>zoomOut\<close> (lines 929-944).\<close>

definition jumpToCurrentTime :: "manager \<Rightarrow> manager" where
  "jumpToCurrentTime s = s\<lparr> timelineOffset := 0 \<rparr>"

definition zoomIn :: "manager \<Rightarrow> manager" where
  "zoomIn s = s\<lparr> zoomLevel := min (zoomLevel s * 1.5) 5 \<rparr>"

definition zoomOut :: "manager \<Rightarrow> manager" where
  "zoomOut s = s\<lparr> zoomLevel := max (zoomLevel s / 1.5) 0.2 \<rparr>"

text \<open>The view commands bound to the header controls (\<open>setupEventListeners\<close>,
  lines 769-782).\<close>

datatype view_command = JumpToNow | ZoomIn | ZoomOut

fun view_step :: "manager \<Rightarrow> view_command \<Rightarrow> manager" where
  "view_step s JumpToNow = jumpToCurrentTime s"
| "view_step s ZoomIn = zoomIn s"
| "view_step s ZoomOut = zoomOut s"

section \<open>WebSocketService: reconnection\<close>

text \<open>The counters of the service (lines 104-114). \<open>maxReconnectAttempts\<close> and
  \<open>reconnectDelay\<close> (milliseconds) are assigned once, in the constructor.\<close>

record ws_service =
  reconnectAttempts :: nat
  isConnected :: bool

definition maxReconnectAttempts :: nat where
  "maxReconnectAttempts = 5"

definition reconnectDelay :: nat where
  "reconnectDelay = 1000"

definition new_ws_service :: ws_service where
  "new_ws_service = \<lparr> reconnectAttempts = 0, isConnected = False \<rparr>"

text \<open>\<open>attemptReconnect\<close> (lines 158-169): the new state and the delay of the timer
  it sets, if it sets one.\<close>

definition attemptReconnect :: "ws_service \<Rightarrow> ws_service \<times> nat option" where
  "attemptReconnect ws =
     (if reconnectAttempts ws < maxReconnectAttempts
      then (let ws' = ws\<lparr> reconnectAttempts := reconnectAttempts ws + 1 \<rparr>
            in (ws', Some (reconnectDelay * reconnectAttempts ws')))
      else (ws, None))"

text \<open>The socket callbacks set in \<open>connect\<close> (lines 121-150).\<close>

definition onopen :: "ws_service \<Rightarrow> ws_service" where
  "onopen ws = ws\<lparr> isConnected := True, reconnectAttempts := 0 \<rparr>"

definition onclose :: "ws_service \<Rightarrow> ws_service \<times> nat option" where
  "onclose ws = attemptReconnect (ws\<lparr> isConnected := False \<rparr>)"

definition onerror :: "ws_service \<Rightarrow> ws_service" where
  "onerror ws = ws\<lparr> isConnected := False \<rparr>"

text \<open>\<open>n\<close> connection failures in a row: each closes the socket, and the timer set by
  \<open>attemptReconnect\<close> opens the next one. The delays of the timers are collected.\<close>

fun failures :: "nat \<Rightarrow> ws_service \<Rightarrow> ws_service \<times> nat option list" where
  "failures 0 ws = (ws, [])"
| "failures (Suc n) ws =
     (let (ws1, timers) = failures n ws; (ws2, timer) = onclose ws1
      in (ws2, timers @ [timer]))"

section \<open>The form check of the client\<close>

text \<open>
  The validation block of \<open>saveTask\<close> (lines 500-517). \<open>title\<close> is the trimmed
  input; \<open>startTime\<close> is \<open>None\<close> for an invalid Date (\<open>getTime()\<close> is NaN) and
  \<open>duration\<close> is \<open>None\<close> when \<open>parseInt\<close> yields NaN. A rejection names the
  form element that receives the focus and the message shown.
\<close>

datatype form_verdict = Rejected string string | Submitted

definition saveTask_check :: "string \<Rightarrow> real option \<Rightarrow> int option \<Rightarrow> form_verdict" where
  "saveTask_check title_input startTime_input duration_input =
     (if title_input = [] then Rejected ''taskTitle'' ''Please enter a task title''
      else if startTime_input = None
        then Rejected ''taskStartTime'' ''Please enter a valid start time''
      else if (case duration_input of None \<Rightarrow> True | Some d \<Rightarrow> d < 15)
        then Rejected ''taskDuration'' ''Task duration must be at least 15 minutes''
      else Submitted)"

section \<open>The server (server.js)\<close>

text \<open>
  A path of a request body as the schema type of the path receives it: \<open>Missing\<close>
  (absent or \<open>null\<close>), \<open>Uncastable\<close> (a value the schema type cannot be cast from)
  or a value of the type. The optional paths with a default are absent (\<open>None\<close>) or
  a string. A date is held by its time value.
\<close>

datatype 'a field = Missing | Uncastable | Val 'a

record task_body =
  body_title :: "string field"
  body_startTime :: "real field"
  body_duration :: "real field"
  body_color :: "string option"
  body_status :: "string option"
  body_userId :: "string option"
  body_tempId :: "string option"

text \<open>A stored document of \<open>taskSchema\<close> (lines 23-38); the time stamps and the
  version key that the library adds are left out.\<close>

record doc =
  doc_id :: string
  doc_title :: string
  doc_startTime :: real
  doc_duration :: real
  doc_color :: string
  doc_status :: string
  doc_userId :: string

datatype path_error = Required | CastFailed | NotInEnum

datatype api_error =
    ValidationError "(string \<times> path_error) list"
  | StoreError string

text \<open>
  The validators that \<open>taskSchema\<close> declares, in the order of its paths:
  \<open>required\<close> on \<open>title\<close>, \<open>startTime\<close> and \<open>duration\<close>, \<open>enum\<close> on
  \<open>status\<close>. The library's \<open>required\<close> rejects an absent or null value and, for a
  String path, the empty string. The schema declares no \<open>min\<close> on \<open>duration\<close>.
\<close>

definition required_string :: "string \<Rightarrow> string field \<Rightarrow> (string \<times> path_error) list" where
  "required_string path v =
     (case v of
        Missing \<Rightarrow> [(path, Required)]
      | Uncastable \<Rightarrow> [(path, CastFailed)]
      | Val x \<Rightarrow> if x = [] then [(path, Required)] else [])"

definition required_value :: "string \<Rightarrow> real field \<Rightarrow> (string \<times> path_error) list" where
  "required_value path v =
     (case v of
        Missing \<Rightarrow> [(path, Required)]
      | Uncastable \<Rightarrow> [(path, CastFailed)]
      | Val x \<Rightarrow> [])"

definition status_enum :: "string list" where
  "status_enum = [''pending'', ''in-progress'', ''completed'']"

definition enum_status :: "string option \<Rightarrow> (string \<times> path_error) list" where
  "enum_status v =
     (case v of
        None \<Rightarrow> []
      | Some x \<Rightarrow> if x \<in> set status_enum then [] else [(''status'', NotInEnum)])"

definition Task_validate :: "task_body \<Rightarrow> (string \<times> path_error) list" where
  "Task_validate b =
     required_string ''title'' (body_title b)
     @ required_value ''startTime'' (body_startTime b)
     @ required_value ''duration'' (body_duration b)
     @ enum_status (body_status b)"

definition or_default :: "string option \<Rightarrow> string \<Rightarrow> string" where
  "or_default v d = (case v of None \<Rightarrow> d | Some x \<Rightarrow> x)"

text \<open>\<open>new Task(taskData)\<close> followed by \<open>task.save()\<close> on a collection held as a
  list; \<open>newId\<close> is the identifier the driver generates.\<close>

definition Task_save :: "string \<Rightarrow> task_body \<Rightarrow> doc list \<Rightarrow> (api_error + doc) \<times> doc list" where
  "Task_save newId b db =
     (case (Task_validate b, body_title b, body_startTime b, body_duration b) of
        ([], Val t, Val st, Val d) \<Rightarrow>
          (let task = \<lparr> doc_id = newId, doc_title = t, doc_startTime = st, doc_duration = d,
                        doc_color = or_default (body_color b) ''#3B82F6'',
                        doc_status = or_default (body_status b) ''pending'',
                        doc_userId = or_default (body_userId b) ''default'' \<rparr>
           in (Inr task, db @ [task]))
      | (errs, _, _, _) \<Rightarrow> (Inl (ValidationError errs), db))"

text \<open>What a route handler does: the HTTP answer, the calls of \<open>broadcast\<close> in order,
  and the store it leaves.\<close>

datatype answer_body =
    TaskJson doc
  | ErrorJson api_error
  | NotFoundJson
  | DeletedJson

datatype broadcast_call =
    Task_created doc "string option"
  | Task_updated doc
  | Task_deleted string

record 'db handled =
  http_status :: nat
  http_body :: answer_body
  published :: "broadcast_call list"
  store :: 'db

text \<open>
  \<open>POST /api/tasks\<close> (lines 99-119). The storage operation is a parameter: it
  returns the saved document or throws, and leaves a store.
\<close>

definition post_tasks ::
  "(task_body \<Rightarrow> 'db \<Rightarrow> (api_error + doc) \<times> 'db) \<Rightarrow> task_body \<Rightarrow> 'db \<Rightarrow> 'db handled" where
  "post_tasks save body db =
     (let tempId = body_tempId body;
          taskData = body\<lparr> body_tempId := None \<rparr>
      in case save taskData db of
           (Inr task, db') \<Rightarrow>
             \<lparr> http_status = 201, http_body = TaskJson task,
               published = [Task_created task (if truthy tempId then tempId else None)],
               store = db' \<rparr>
         | (Inl error, db') \<Rightarrow>
             \<lparr> http_status = 400, http_body = ErrorJson error, published = [], store = db' \<rparr>)"

text \<open>\<open>PUT /api/tasks/:id\<close> (lines 122-140); \<open>findByIdAndUpdate\<close> returns the
  updated document, \<open>null\<close> (\<open>None\<close>), or throws.\<close>

definition put_tasks ::
  "(string \<Rightarrow> task_body \<Rightarrow> 'db \<Rightarrow> (api_error + doc option) \<times> 'db)
     \<Rightarrow> string \<Rightarrow> task_body \<Rightarrow> 'db \<Rightarrow> 'db handled" where
  "put_tasks findByIdAndUpdate params_id body db =
     (case findByIdAndUpdate params_id body db of
        (Inr (Some task), db') \<Rightarrow>
          \<lparr> http_status = 200, http_body = TaskJson task, published = [Task_updated task],
            store = db' \<rparr>
      | (Inr None, db') \<Rightarrow>
          \<lparr> http_status = 404, http_body = NotFoundJson, published = [], store = db' \<rparr>
      | (Inl error, db') \<Rightarrow>
          \<lparr> http_status = 400, http_body = ErrorJson error, published = [], store = db' \<rparr>)"

text \<open>\<open>DELETE /api/tasks/:id\<close> (lines 143-157).\<close>

definition delete_tasks ::
  "(string \<Rightarrow> 'db \<Rightarrow> (api_error + doc option) \<times> 'db) \<Rightarrow> string \<Rightarrow> 'db \<Rightarrow> 'db handled" where
  "delete_tasks findByIdAndDelete params_id db =
     (case findByIdAndDelete params_id db of
        (Inr (Some task), db') \<Rightarrow>
          \<lparr> http_status = 200, http_body = DeletedJson,
            published = [Task_deleted params_id], store = db' \<rparr>
      | (Inr None, db') \<Rightarrow>
          \<lparr> http_status = 404, http_body = NotFoundJson, published = [], store = db' \<rparr>
      | (Inl error, db') \<Rightarrow>
          \<lparr> http_status = 500, http_body = ErrorJson error, published = [], store = db' \<rparr>)"

definition succeeded :: "'db handled \<Rightarrow> bool" where
  "succeeded r \<longleftrightarrow> http_status r = 200 \<or> http_status r = 201"

text \<open>\<open>broadcast\<close> (lines 229-236): one \<open>send\<close> to every registered connection whose
  socket is open. The registry \<open>clients\<close> is a Set, held as a list in insertion order.\<close>

datatype ready_state = CONNECTING | OPEN | CLOSING | CLOSED

record connection =
  conn_id :: nat
  readyState :: ready_state

definition broadcast :: "broadcast_call \<Rightarrow> connection list \<Rightarrow> (nat \<times> broadcast_call) list" where
  "broadcast message clients =
     map (\<lambda>client. (conn_id client, message))
         (filter (\<lambda>client. readyState client = OPEN) clients)"

section \<open>Concrete values\<close>

text \<open>Built-ins for the concrete runs: a number or a date converts to its value,
  anything else to 0.\<close>

definition example_builtins :: builtins where
  "example_builtins =
     \<lparr> Number_of = (\<lambda>v. case v of JNum n \<Rightarrow> n | JDate d \<Rightarrow> d | _ \<Rightarrow> 0),
       Date_of = (\<lambda>v. case v of JNum n \<Rightarrow> n | JDate d \<Rightarrow> d | _ \<Rightarrow> 0) \<rparr>"

definition standup :: task where
  "standup =
     \<lparr> mongo_id = Some ''42'', plain_id = None, title = ''Standup'',
       startTime = JStr ''2025-01-01T09:00'', duration = JNum 15,
       color = ''#3B82F6'', status = ''pending'', tempId = None \<rparr>"

definition standup_moved :: task where
  "standup_moved = standup\<lparr> startTime := JNum 3600000, duration := JNum 30 \<rparr>"

definition example_manager :: manager where
  "example_manager =
     (init_manager 0)\<lparr> tasks := [normalizeTask example_builtins standup],
                       selectedTask := Some (normalizeTask example_builtins standup) \<rparr>"

definition example_ops :: "client_op list" where
  "example_ops =
     [LoadTasks (Some [standup]), SelectTask standup, Receive (TaskUpdated standup_moved)]"



text \<open>Request bodies as \<open>saveTask\<close> builds them, and a stored document.\<close>

definition body_X :: "real \<Rightarrow> task_body" where
  "body_X minutes =
     \<lparr> body_title = Val ''X'', body_startTime = Val 1735722000000,
       body_duration = Val minutes, body_color = Some ''#3B82F6'',
       body_status = Some ''pending'', body_userId = None,
       body_tempId = Some (make_tempId ''1735722000000'' ''k3j9x0q2a'') \<rparr>"

definition doc_X :: "real \<Rightarrow> doc" where
  "doc_X minutes =
     \<lparr> doc_id = ''65a0c1e2f3a4b5c6d7e8f901'', doc_title = ''X'',
       doc_startTime = 1735722000000, doc_duration = minutes, doc_color = ''#3B82F6'',
       doc_status = ''pending'', doc_userId = ''default'' \<rparr>"

text \<open>Stand-ins for the storage operations on a collection held as a list, for the
  concrete runs of the update and delete handlers; the update sets the paths that the
  body supplies and validates nothing.\<close>

definition set_field :: "'a field \<Rightarrow> 'a \<Rightarrow> 'a" where
  "set_field v old = (case v of Val x \<Rightarrow> x | _ \<Rightarrow> old)"

definition list_findByIdAndUpdate ::
  "string \<Rightarrow> task_body \<Rightarrow> doc list \<Rightarrow> (api_error + doc option) \<times> doc list" where
  "list_findByIdAndUpdate params_id body db =
     (case findIndex (\<lambda>d. doc_id d = params_id) db of
        None \<Rightarrow> (Inr None, db)
      | Some i \<Rightarrow>
          (let old = db ! i;
               task = old\<lparr> doc_title := set_field (body_title body) (doc_title old),
                           doc_startTime := set_field (body_startTime body) (doc_startTime old),
                           doc_duration := set_field (body_duration body) (doc_duration old),
                           doc_color := or_default (body_color body) (doc_color old),
                           doc_status := or_default (body_status body) (doc_status old),
                           doc_userId := or_default (body_userId body) (doc_userId old) \<rparr>
           in (Inr (Some task), db[i := task])))"

definition list_findByIdAndDelete ::
  "string \<Rightarrow> doc list \<Rightarrow> (api_error + doc option) \<times> doc list" where
  "list_findByIdAndDelete params_id db =
     (case findIndex (\<lambda>d. doc_id d = params_id) db of
        None \<Rightarrow> (Inr None, db)
      | Some i \<Rightarrow> (Inr (Some (db ! i)), splice1 i db))"

definition failing_store :: "doc list \<Rightarrow> (api_error + doc option) \<times> doc list" where
  "failing_store db = (Inl (StoreError ''connection lost''), db)"

section \<open>Facts about the array helpers\<close>

lemma findIndex_None_iff: "findIndex P xs = None \<longleftrightarrow> (\<forall>x\<in>set xs. \<not> P x)"
  by (induction xs) auto

lemma findIndex_Some_D:
  "findIndex P xs = Some i \<Longrightarrow> i < length xs \<and> P (xs ! i) \<and> (\<forall>j<i. \<not> P (xs ! j))"
proof (induction xs arbitrary: i)
  case Nil
  then show ?case by simp
next
  case (Cons x xs)
  show ?case
  proof (cases "P x")
    case True
    with Cons.prems show ?thesis by simp
  next
    case False
    with Cons.prems obtain k where k: "findIndex P xs = Some k" "i = Suc k"
      by auto
    from Cons.IH [OF k(1)] False k(2) show ?thesis
      by (auto simp: nth_Cons split: nat.splits)
  qed
qed

lemma findIndex_update_hit:
  "findIndex P xs = Some i \<Longrightarrow> P n \<Longrightarrow> findIndex P (xs[i := n]) = Some i"
proof (induction xs arbitrary: i)
  case Nil
  then show ?case by simp
next
  case (Cons x xs)
  then show ?case
    by (cases "P x") (auto split: nat.splits)
qed


lemma findIndex_update_miss:
  assumes "findIndex (\<lambda>t. f t = k) xs = Some i" and "distinct (map f xs)" and "f n \<noteq> k"
  shows "findIndex (\<lambda>t. f t = k) (xs[i := n]) = None"
  using assms
proof (induction xs arbitrary: i)
  case Nil
  then show ?case by simp
next
  case (Cons x xs)
  show ?case
  proof (cases "f x = k")
    case True
    with Cons.prems have "i = 0" by simp
    moreover from Cons.prems(2) True have "\<forall>y\<in>set xs. f y \<noteq> k"
      by (auto simp: image_iff)
    ultimately show ?thesis using Cons.prems(3)
      by (simp add: findIndex_None_iff)
  next
    case False
    with Cons.prems obtain j where j: "findIndex (\<lambda>t. f t = k) xs = Some j" "i = Suc j"
      by auto
    with Cons.IH [OF j(1)] Cons.prems False show ?thesis
      by simp
  qed
qed

lemma normalizeTask_mongo_id:
  "truthy (mongo_id task) \<Longrightarrow> mongo_id (normalizeTask B task) = mongo_id task"
  by (simp add: normalizeTask_def js_or_def)

section \<open>Handling of broadcasts\<close>

text \<open>
  Claim C4 as stated fails: an \<open>updated\<close> event for an id that is absent from the
  cache does not insert the record. Here the cache is empty and stays empty.
\<close>

theorem handleTaskUpdated_no_insert:
  "mongo_id standup \<notin> set (map mongo_id (tasks (handleTaskUpdated example_builtins standup (init_manager 0))))"
  by (simp add: handleTaskUpdated_def init_manager_def)

text \<open>
  Claim C4, as amended. An \<open>updated\<close> event replaces the first cache entry whose
  \<open>_id\<close> equals the record's \<open>_id\<close> by the normalised record, so the last write
  for an id wins; when no entry has that \<open>_id\<close> the handler changes nothing (the
  record is not inserted).
\<close>

theorem handleTaskUpdated_merge:
  "(mongo_id task \<in> set (map mongo_id (tasks s)) \<longrightarrow>
      (\<exists>index < length (tasks s).
          mongo_id (tasks s ! index) = mongo_id task
        \<and> (\<forall>j < index. mongo_id (tasks s ! j) \<noteq> mongo_id task)
        \<and> handleTaskUpdated B task s = s\<lparr> tasks := (tasks s)[index := normalizeTask B task] \<rparr>))
   \<and> (mongo_id task \<notin> set (map mongo_id (tasks s)) \<longrightarrow> handleTaskUpdated B task s = s)"
proof (cases "findIndex (\<lambda>t. mongo_id t = mongo_id task) (tasks s)")
  case None
  then have "mongo_id task \<notin> set (map mongo_id (tasks s))"
    by (auto simp: findIndex_None_iff)
  with None show ?thesis by (simp add: handleTaskUpdated_def)
next
  case (Some i)
  from findIndex_Some_D [OF Some]
  have i: "i < length (tasks s)" "mongo_id (tasks s ! i) = mongo_id task"
    "\<forall>j<i. mongo_id (tasks s ! j) \<noteq> mongo_id task"
    by simp_all
  then have "mongo_id task \<in> set (map mongo_id (tasks s))"
    by (metis length_map nth_map nth_mem)
  moreover from Some
  have "handleTaskUpdated B task s = s\<lparr> tasks := (tasks s)[i := normalizeTask B task] \<rparr>"
    by (simp add: handleTaskUpdated_def)
  ultimately show ?thesis using i by blast
qed

theorem handleTaskUpdated_merge_witness:
  "mongo_id standup_moved \<in> set (map mongo_id (tasks example_manager))
   \<and> tasks (handleTaskUpdated example_builtins standup_moved example_manager)
       = [normalizeTask example_builtins standup_moved]
   \<and> mongo_id standup \<notin> set (map mongo_id (tasks (init_manager 0)))
   \<and> handleTaskUpdated example_builtins standup (init_manager 0) = init_manager 0"
proof -
  have m: "mongo_id standup_moved \<in> set (map mongo_id (tasks example_manager))"
    by (simp add: example_manager_def normalizeTask_def standup_moved_def standup_def
        js_or_def truthy_def)
  have l: "length (tasks example_manager) = 1"
    by (simp add: example_manager_def)
  have a: "mongo_id standup \<notin> set (map mongo_id (tasks (init_manager 0)))"
    by (simp add: init_manager_def)
  from handleTaskUpdated_merge [of standup_moved example_manager example_builtins] m l
  have "handleTaskUpdated example_builtins standup_moved example_manager
      = example_manager\<lparr> tasks := (tasks example_manager)[0 := normalizeTask example_builtins standup_moved] \<rparr>"
    by auto
  then have "tasks (handleTaskUpdated example_builtins standup_moved example_manager)
       = [normalizeTask example_builtins standup_moved]"
    by (simp add: example_manager_def)
  with handleTaskUpdated_merge [of standup "init_manager 0" example_builtins] m a
  show ?thesis by simp
qed




text \<open>
  Claim C8. Handling the same \<open>updated\<close> event twice leaves the manager as handling
  it once does, for every cache that holds at most one entry per \<open>_id\<close> and also
  for every record that carries a non-empty \<open>_id\<close>.
\<close>

theorem handleTaskUpdated_idempotent:
  assumes "distinct (map mongo_id (tasks s)) \<or> truthy (mongo_id task)"
  shows "handleTaskUpdated B task (handleTaskUpdated B task s) = handleTaskUpdated B task s"
proof (cases "findIndex (\<lambda>t. mongo_id t = mongo_id task) (tasks s)")
  case None
  then show ?thesis by (simp add: handleTaskUpdated_def)
next
  case (Some i)
  let ?n = "normalizeTask B task"
  show ?thesis
  proof (cases "mongo_id ?n = mongo_id task")
    case True
    from findIndex_update_hit [OF Some, of ?n] True
    have "findIndex (\<lambda>t. mongo_id t = mongo_id task) ((tasks s)[i := ?n]) = Some i"
      by simp
    with Some show ?thesis by (simp add: handleTaskUpdated_def)
  next
    case False
    with assms normalizeTask_mongo_id [of task B] have "distinct (map mongo_id (tasks s))"
      by auto
    from findIndex_update_miss [OF Some this False]
    have "findIndex (\<lambda>t. mongo_id t = mongo_id task) ((tasks s)[i := ?n]) = None" .
    with Some show ?thesis by (simp add: handleTaskUpdated_def)
  qed
qed

theorem handleTaskUpdated_idempotent_witness:
  "(distinct (map mongo_id (tasks example_manager)) \<or> truthy (mongo_id standup_moved))
   \<and> handleTaskUpdated example_builtins standup_moved
         (handleTaskUpdated example_builtins standup_moved example_manager)
       = handleTaskUpdated example_builtins standup_moved example_manager
   \<and> tasks (handleTaskUpdated example_builtins standup_moved example_manager)
       = [normalizeTask example_builtins standup_moved]"
proof -
  have h: "truthy (mongo_id standup_moved)"
    by (simp add: standup_moved_def standup_def truthy_def)
  have "tasks (handleTaskUpdated example_builtins standup_moved example_manager)
       = [normalizeTask example_builtins standup_moved]"
    by (simp add: handleTaskUpdated_def example_manager_def init_manager_def
        standup_moved_def standup_def normalizeTask_def js_or_def truthy_def)
  with h handleTaskUpdated_idempotent [of example_manager standup_moved example_builtins]
  show ?thesis by simp
qed

section \<open>Coordinate engine\<close>

text \<open>
  Claim C2. Over the reals, for every view state with a non-zero scale
  (\<open>pixelsPerHour\<close> and \<open>zoomLevel\<close> both non-zero, as every valid configuration
  has), \<open>xToTime\<close> undoes \<open>timeToX\<close> for every timestamp, and \<open>timeToX\<close> undoes
  \<open>xToTime\<close> for every position: the two are exact algebraic inverses.
\<close>

theorem timeToX_xToTime_inverse:
  assumes "pixelsPerHour s \<noteq> 0" and "zoomLevel s \<noteq> 0"
  shows "xToTime s (timeToX s t containerWidth) containerWidth = t
       \<and> timeToX s (xToTime s x containerWidth) containerWidth = x"
  using assms by (simp add: timeToX_def xToTime_def Let_def field_simps)

theorem timeToX_xToTime_inverse_witness:
  "pixelsPerHour (zoomIn (init_manager 1735722000000)) \<noteq> 0
   \<and> zoomLevel (zoomIn (init_manager 1735722000000)) \<noteq> 0
   \<and> timeToX (zoomIn (init_manager 1735722000000)) 1735725600000 800 = 580
   \<and> xToTime (zoomIn (init_manager 1735722000000)) 580 800 = 1735725600000"
proof -
  let ?s = "zoomIn (init_manager 1735722000000)"
  have p: "pixelsPerHour ?s \<noteq> 0" and z: "zoomLevel ?s \<noteq> 0"
    by (simp_all add: zoomIn_def init_manager_def)
  have x: "timeToX ?s 1735725600000 800 = 580"
    by (simp add: timeToX_def zoomIn_def init_manager_def Let_def)
  from timeToX_xToTime_inverse [OF p z, of 1735725600000 800] x p z show ?thesis
    by simp
qed

lemma view_step_zoom_range:
  assumes "0.2 \<le> zoomLevel s" and "zoomLevel s \<le> 5"
  shows "0.2 \<le> zoomLevel (view_step s c) \<and> zoomLevel (view_step s c) \<le> 5"
  using assms by (cases c) (simp_all add: jumpToCurrentTime_def zoomIn_def zoomOut_def)

lemma view_run_zoom_range:
  assumes "0.2 \<le> zoomLevel s" and "zoomLevel s \<le> 5"
  shows "0.2 \<le> zoomLevel (foldl view_step s cs) \<and> zoomLevel (foldl view_step s cs) \<le> 5"
  using assms
proof (induction cs arbitrary: s)
  case Nil
  then show ?case by simp
next
  case (Cons c cs)
  from view_step_zoom_range [OF Cons.prems, of c] Cons.IH [of "view_step s c"]
  show ?case by simp
qed

text \<open>
  Claim C9. Zoom-in sets the zoom factor to the smaller of 1.5 times its value and 5,
  zoom-out to the larger of its value divided by 1.5 and 0.2, and "jump to now" sets
  the view offset to 0. From a zoom factor within \<open>[0.2, 5]\<close> both zoom commands
  lead to a zoom factor within \<open>[0.2, 5]\<close>; so does every sequence of view commands
  from the initial state, whose zoom factor is 1.
\<close>

theorem zoom_controls:
  "zoomLevel (zoomIn s) = min (zoomLevel s * 1.5) 5
   \<and> zoomLevel (zoomOut s) = max (zoomLevel s / 1.5) 0.2
   \<and> timelineOffset (jumpToCurrentTime s) = 0
   \<and> (0.2 \<le> zoomLevel s \<and> zoomLevel s \<le> 5 \<longrightarrow>
        0.2 \<le> zoomLevel (zoomIn s) \<and> zoomLevel (zoomIn s) \<le> 5
      \<and> 0.2 \<le> zoomLevel (zoomOut s) \<and> zoomLevel (zoomOut s) \<le> 5)
   \<and> 0.2 \<le> zoomLevel (foldl view_step (init_manager now) cs)
   \<and> zoomLevel (foldl view_step (init_manager now) cs) \<le> 5"
proof -
  have "0.2 \<le> zoomLevel (init_manager now)" "zoomLevel (init_manager now) \<le> 5"
    by (simp_all add: init_manager_def)
  from view_run_zoom_range [OF this, of cs] show ?thesis
    by (simp add: jumpToCurrentTime_def zoomIn_def zoomOut_def)
qed

theorem zoom_controls_witness:
  "0.2 \<le> zoomLevel (zoomIn (init_manager 0)) \<and> zoomLevel (zoomIn (init_manager 0)) \<le> 5
   \<and> zoomLevel (zoomIn (init_manager 0)) = 1.5
   \<and> zoomLevel (zoomOut (zoomIn (init_manager 0))) = 1
   \<and> zoomLevel (zoomIn (zoomIn (zoomIn (zoomIn (init_manager 0))))) = 5
   \<and> zoomLevel (zoomOut (zoomOut (zoomOut (zoomOut (init_manager 0))))) = 0.2"
proof -
  have "0.2 \<le> zoomLevel (init_manager 0) \<and> zoomLevel (init_manager 0) \<le> 5"
    by (simp add: init_manager_def)
  with zoom_controls [of "init_manager 0"] zoom_controls [of "zoomIn (init_manager 0)"]
  show ?thesis
    by (simp add: zoomIn_def zoomOut_def init_manager_def)
qed

section \<open>Reconnection\<close>

lemma failures_from_zero:
  assumes "reconnectAttempts ws = 0"
  shows "reconnectAttempts (fst (failures n ws)) = min n maxReconnectAttempts
       \<and> snd (failures n ws)
           = map (\<lambda>k. if k \<le> maxReconnectAttempts then Some (reconnectDelay * k) else None)
                 [1..<Suc n]"
proof (induction n)
  case 0
  from assms show ?case by simp
next
  case (Suc n)
  obtain ws1 timers where f: "failures n ws = (ws1, timers)"
    by (cases "failures n ws")
  with Suc have ws1: "reconnectAttempts ws1 = min n maxReconnectAttempts"
    and timers: "timers = map (\<lambda>k. if k \<le> maxReconnectAttempts then Some (reconnectDelay * k) else None) [1..<Suc n]"
    by simp_all
  show ?case
  proof (cases "n < maxReconnectAttempts")
    case True
    with ws1 have "onclose ws1 = (ws1\<lparr> isConnected := False, reconnectAttempts := Suc n \<rparr>,
        Some (reconnectDelay * Suc n))"
      by (simp add: onclose_def attemptReconnect_def Let_def)
    with f timers True show ?thesis by simp
  next
    case False
    with ws1 have "onclose ws1 = (ws1\<lparr> isConnected := False \<rparr>, None)"
      by (simp add: onclose_def attemptReconnect_def)
    with f timers False ws1 show ?thesis by simp
  qed
qed

text \<open>
  Claim C6. Counting from a new service, and likewise from any service whose socket has
  just opened (\<open>onopen\<close> puts the counter back to 0), the \<open>k\<close>-th failure in a row
  sets a timer of \<open>k\<close> times 1000 milliseconds for \<open>k\<close> up to 5 and no timer after
  that. So the third failure schedules the next attempt 3 base delays later, and the
  failure that follows five attempts schedules nothing.
\<close>

theorem reconnect_backoff:
  "snd (failures n new_ws_service)
     = map (\<lambda>k. if k \<le> 5 then Some (1000 * k) else None) [1..<Suc n]
   \<and> snd (failures n (onopen ws))
     = map (\<lambda>k. if k \<le> 5 then Some (1000 * k) else None) [1..<Suc n]
   \<and> reconnectAttempts (onopen ws) = 0
   \<and> snd (onclose (fst (failures 2 new_ws_service))) = Some (3 * reconnectDelay)
   \<and> snd (onclose (fst (failures maxReconnectAttempts new_ws_service))) = None"
proof -
  have a: "reconnectAttempts new_ws_service = 0" and b: "reconnectAttempts (onopen ws) = 0"
    by (simp_all add: new_ws_service_def onopen_def)
  have c: "snd (failures 3 new_ws_service) = [Some 1000, Some 2000, Some 3000]"
    using failures_from_zero [OF a, of 3]
    by (simp add: maxReconnectAttempts_def reconnectDelay_def upt_rec)
  have "failures 3 new_ws_service
      = (let (ws1, timers) = failures 2 new_ws_service; (ws2, timer) = onclose ws1
         in (ws2, timers @ [timer]))"
    by (simp add: numeral_3_eq_3 numeral_2_eq_2)
  then have "snd (failures 3 new_ws_service)
      = snd (failures 2 new_ws_service) @ [snd (onclose (fst (failures 2 new_ws_service)))]"
    by (simp add: split_beta)
  with c have d: "snd (onclose (fst (failures 2 new_ws_service))) = Some (3 * reconnectDelay)"
    using failures_from_zero [OF a, of 2]
    by (simp add: maxReconnectAttempts_def reconnectDelay_def upt_rec)
  have "reconnectAttempts (fst (failures maxReconnectAttempts new_ws_service)) = maxReconnectAttempts"
    using failures_from_zero [OF a, of maxReconnectAttempts] by simp
  then have e: "snd (onclose (fst (failures maxReconnectAttempts new_ws_service))) = None"
    by (simp add: onclose_def attemptReconnect_def)
  from failures_from_zero [OF a, of n] failures_from_zero [OF b, of n] b d e show ?thesis
    by (simp add: maxReconnectAttempts_def reconnectDelay_def)
qed

theorem reconnect_backoff_witness:
  "snd (failures 7 new_ws_service)
     = [Some 1000, Some 2000, Some 3000, Some 4000, Some 5000, None, None]"
  using reconnect_backoff [of 7] by (simp add: upt_rec)

section \<open>Echo of the own creation\<close>

lemma make_tempId_nonempty: "make_tempId now_digits random_digits \<noteq> []"
  by (simp add: make_tempId_def)

lemma saveTaskToAPI_created_fresh:
  assumes "mongo_id newTask \<notin> set (map mongo_id (tasks s))"
  shows "tasks (saveTaskToAPI_created B T newTask s) = tasks s @ [normalizeTask B newTask]"
proof -
  from assms have "find (\<lambda>t. mongo_id t = mongo_id newTask) (tasks s) = None"
    by (auto simp: find_None_iff image_iff)
  then show ?thesis
    by (simp add: saveTaskToAPI_created_def createTask_settled_def)
qed

text \<open>
  Claim C1. Let \<open>T\<close> be a temporary identifier made by \<open>createTask\<close> that is
  pending, and let a \<open>task:created\<close> message carry \<open>T\<close>. The handler drops the
  message: the state changes only in that \<open>T\<close> is no longer pending, so the cache
  is as before. When the answer to the create request then brings a record whose
  \<open>_id\<close> is not in the cache, the cache grows by exactly that one normalised record.
\<close>

theorem created_echo_discarded:
  assumes "T = make_tempId now_digits random_digits"
    and "T \<in> pendingCreations s"
    and "tempId data = Some T"
  shows "handleWebSocketMessage B (TaskCreated data) s
           = s\<lparr> pendingCreations := pendingCreations s - {T} \<rparr>
       \<and> tasks (handleWebSocketMessage B (TaskCreated data) s) = tasks s
       \<and> T \<notin> pendingCreations (handleWebSocketMessage B (TaskCreated data) s)
       \<and> (mongo_id newTask \<notin> set (map mongo_id (tasks s)) \<longrightarrow>
            tasks (saveTaskToAPI_created B T newTask
                     (handleWebSocketMessage B (TaskCreated data) s))
              = tasks s @ [normalizeTask B newTask])"
proof -
  from assms(1) have "T \<noteq> []"
    by (simp add: make_tempId_nonempty)
  with assms(2,3)
  have e: "handleWebSocketMessage B (TaskCreated data) s
      = s\<lparr> pendingCreations := pendingCreations s - {T} \<rparr>"
    by simp
  then have t: "tasks (handleWebSocketMessage B (TaskCreated data) s) = tasks s"
    by simp
  from saveTaskToAPI_created_fresh [of newTask "handleWebSocketMessage B (TaskCreated data) s" B T] t
  have "mongo_id newTask \<notin> set (map mongo_id (tasks s)) \<longrightarrow>
            tasks (saveTaskToAPI_created B T newTask
                     (handleWebSocketMessage B (TaskCreated data) s))
              = tasks s @ [normalizeTask B newTask]"
    by simp
  with e show ?thesis by simp
qed

theorem created_echo_discarded_witness:
  "make_tempId ''1735722000000'' ''k3j9x0q2a''
      \<in> pendingCreations (createTask_request (make_tempId ''1735722000000'' ''k3j9x0q2a'') (init_manager 0))
   \<and> tempId (standup\<lparr> tempId := Some (make_tempId ''1735722000000'' ''k3j9x0q2a'') \<rparr>)
       = Some (make_tempId ''1735722000000'' ''k3j9x0q2a'')
   \<and> mongo_id standup \<notin> set (map mongo_id (tasks (createTask_request (make_tempId ''1735722000000'' ''k3j9x0q2a'') (init_manager 0))))
   \<and> tasks (handleWebSocketMessage example_builtins
              (TaskCreated (standup\<lparr> tempId := Some (make_tempId ''1735722000000'' ''k3j9x0q2a'') \<rparr>))
              (createTask_request (make_tempId ''1735722000000'' ''k3j9x0q2a'') (init_manager 0))) = []
   \<and> tasks (saveTaskToAPI_created example_builtins (make_tempId ''1735722000000'' ''k3j9x0q2a'') standup
             (handleWebSocketMessage example_builtins
               (TaskCreated (standup\<lparr> tempId := Some (make_tempId ''1735722000000'' ''k3j9x0q2a'') \<rparr>))
               (createTask_request (make_tempId ''1735722000000'' ''k3j9x0q2a'') (init_manager 0))))
       = [normalizeTask example_builtins standup]"
proof -
  let ?T = "make_tempId ''1735722000000'' ''k3j9x0q2a''"
  let ?s = "createTask_request ?T (init_manager 0)"
  let ?data = "standup\<lparr> tempId := Some ?T \<rparr>"
  have p: "?T \<in> pendingCreations ?s"
    by (simp add: createTask_request_def)
  have d: "tempId ?data = Some ?T"
    by simp
  have f: "mongo_id standup \<notin> set (map mongo_id (tasks ?s))" and n: "tasks ?s = []"
    by (simp_all add: createTask_request_def init_manager_def)
  note th = created_echo_discarded [OF refl p d, of example_builtins standup]
  from th have a: "tasks (handleWebSocketMessage example_builtins (TaskCreated ?data) ?s) = tasks ?s"
    by blast
  from th f
  have b: "tasks (saveTaskToAPI_created example_builtins ?T standup
                   (handleWebSocketMessage example_builtins (TaskCreated ?data) ?s))
         = tasks ?s @ [normalizeTask example_builtins standup]"
    by blast
  from p d f a b n show ?thesis
    by (simp del: handleWebSocketMessage.simps)
qed

text \<open>The other order: when the answer came first, the echo finds the id in the cache
  and adds nothing.\<close>

lemma late_echo_no_duplicate:
  assumes "truthy (mongo_id newTask)" and "mongo_id data = mongo_id newTask"
  shows "tasks (handleTaskCreated B data (saveTaskToAPI_created B T newTask s))
       = tasks (saveTaskToAPI_created B T newTask s)"
proof -
  let ?s' = "saveTaskToAPI_created B T newTask s"
  have "mongo_id newTask \<in> set (map mongo_id (tasks ?s'))"
  proof (cases "find (\<lambda>t. mongo_id t = mongo_id newTask) (tasks s)")
    case None
    with assms(1) show ?thesis
      by (simp add: saveTaskToAPI_created_def createTask_settled_def normalizeTask_mongo_id)
  next
    case (Some a)
    then have "a \<in> set (tasks s)" "mongo_id a = mongo_id newTask"
      by (auto simp: find_Some_iff)
    then have "mongo_id newTask \<in> mongo_id ` set (tasks s)"
      by (metis imageI)
    with Some show ?thesis
      by (simp add: saveTaskToAPI_created_def createTask_settled_def)
  qed
  with assms(2) have "findIndex (\<lambda>t. mongo_id t = mongo_id data) (tasks ?s') \<noteq> None"
    by (auto simp: findIndex_None_iff)
  then show ?thesis
    by (auto simp: handleTaskCreated_def)
qed

section \<open>The cache holds normalised records\<close>

lemma in_set_splice1: "t \<in> set (splice1 i xs) \<Longrightarrow> t \<in> set xs"
  by (auto simp: splice1_def dest: in_set_takeD in_set_dropD)

lemma in_set_update: "t \<in> set (xs[i := v]) \<Longrightarrow> t = v \<or> t \<in> set xs"
  using set_update_subset_insert [of xs i v] by auto

lemma handleTaskCreated_cache:
  assumes "\<forall>t\<in>set (tasks s). P t" and "P (normalizeTask B data)"
  shows "\<forall>t\<in>set (tasks (handleTaskCreated B data s)). P t"
  using assms by (auto simp: handleTaskCreated_def split: option.splits)

lemma handleTaskUpdated_cache:
  assumes "\<forall>t\<in>set (tasks s). P t" and "P (normalizeTask B data)"
  shows "\<forall>t\<in>set (tasks (handleTaskUpdated B data s)). P t"
  using assms by (auto simp: handleTaskUpdated_def split: option.splits dest: in_set_update)

lemma handleTaskDeleted_cache:
  assumes "\<forall>t\<in>set (tasks s). P t"
  shows "\<forall>t\<in>set (tasks (handleTaskDeleted data_id s)). P t"
  using assms by (auto simp: handleTaskDeleted_def split: option.splits dest: in_set_splice1)

lemma handleWebSocketMessage_cache:
  assumes "\<forall>t\<in>set (tasks s). P t" and "\<forall>r\<in>set (incoming (Receive m)). P (normalizeTask B r)"
  shows "\<forall>t\<in>set (tasks (handleWebSocketMessage B m s)). P t"
proof (cases m)
  case (TaskCreated data)
  with assms handleTaskCreated_cache [of s P B data] show ?thesis
    by (simp split: option.splits)
next
  case (TaskUpdated data)
  with assms handleTaskUpdated_cache [of s P B data] show ?thesis by simp
next
  case (TaskDeleted data_id)
  with assms handleTaskDeleted_cache [of s P data_id] show ?thesis by simp
next
  case (TimeUpdate v)
  with assms show ?thesis by (simp add: handleTimeUpdate_def)
next
  case TimelineSynced
  with assms show ?thesis by simp
next
  case (Other ty)
  with assms show ?thesis by simp
qed

lemma saveTaskToAPI_created_cache:
  assumes "\<forall>t\<in>set (tasks s). P t" and "P (normalizeTask B newTask)"
  shows "\<forall>t\<in>set (tasks (saveTaskToAPI_created B T newTask s)). P t"
  using assms
  by (auto simp: saveTaskToAPI_created_def createTask_settled_def Let_def split: option.splits)

lemma saveTaskToAPI_updated_cache:
  assumes "\<forall>t\<in>set (tasks s). P t" and "P (normalizeTask B updatedTask)"
  shows "\<forall>t\<in>set (tasks (saveTaskToAPI_updated B updatedTask s)). P t"
  using assms
  by (auto simp: saveTaskToAPI_updated_def split: option.splits dest: in_set_update)

lemma deleteTaskFromAPI_done_cache:
  assumes "\<forall>t\<in>set (tasks s). P t"
  shows "\<forall>t\<in>set (tasks (deleteTaskFromAPI_done taskId s)). P t"
  using assms
  by (auto simp: deleteTaskFromAPI_done_def Let_def split: option.splits dest: in_set_splice1)

lemma client_step_cache:
  assumes "\<forall>t\<in>set (tasks s). P t" and "\<forall>r\<in>set (incoming op). P (normalizeTask B r)"
  shows "\<forall>t\<in>set (tasks (client_step B s op)). P t"
proof (cases op)
  case (LoadTasks answer)
  with assms show ?thesis
    by (cases answer) (auto simp: loadTasksFromAPI_def)
next
  case (CreateRequest n r)
  with assms show ?thesis by (simp add: createTask_request_def)
next
  case (CreateAnswer T answer)
  with assms saveTaskToAPI_created_cache [of s P B _ T] show ?thesis
    by (cases answer) (simp_all add: createTask_settled_def)
next
  case (UpdateAnswer u)
  with assms saveTaskToAPI_updated_cache [of s P B u] show ?thesis by simp
next
  case (DeleteAnswer taskId)
  with assms deleteTaskFromAPI_done_cache [of s P taskId] show ?thesis by simp
next
  case (Receive m)
  with assms handleWebSocketMessage_cache [of s P m B] show ?thesis by simp
next
  case (OpenTaskModal t)
  with assms show ?thesis by simp
next
  case CloseTaskModal
  with assms show ?thesis by simp
next
  case (SelectTask t)
  with assms show ?thesis by simp
qed

lemma client_run_cache:
  assumes "\<forall>t\<in>set (tasks s). P t"
    and "\<forall>op\<in>set ops. \<forall>r\<in>set (incoming op). P (normalizeTask B r)"
  shows "\<forall>t\<in>set (tasks (client_run B s ops)). P t"
  using assms
proof (induction ops arbitrary: s)
  case Nil
  then show ?case by (simp add: client_run_def)
next
  case (Cons op ops)
  from Cons.prems have "\<forall>t\<in>set (tasks (client_step B s op)). P t"
    by (intro client_step_cache) simp_all
  from Cons.IH [OF this] Cons.prems(2) show ?case
    by (simp add: client_run_def)
qed

lemma normalizeTask_normalized: "normalized (normalizeTask B r)"
  by (simp add: normalized_def normalizeTask_def is_Date_def is_Number_def)

lemma normalizeTask_ids_defined:
  assumes "truthy (mongo_id r) \<or> plain_id r \<noteq> None"
  shows "mongo_id (normalizeTask B r) \<noteq> None \<and> plain_id (normalizeTask B r) \<noteq> None"
  using assms by (auto simp: normalizeTask_def js_or_def truthy_def split: option.splits)

text \<open>
  Claim C10. After every sequence of operations from the initial state (loading,
  creating, updating, deleting, handling any message of the push channel, opening and
  closing the modal, selecting), every cache entry is the result of \<open>normalizeTask\<close>
  on some record, its \<open>id\<close> and \<open>_id\<close> are equal, its \<open>startTime\<close> is a Date and
  its \<open>duration\<close> is a number. Each single operation keeps this for any cache. When
  every record that comes in carries a non-empty \<open>_id\<close> or an \<open>id\<close>, the two
  fields of every cache entry are defined.
\<close>

theorem cache_normalized:
  "(\<forall>t\<in>set (tasks (client_run B (init_manager now) ops)).
       (\<exists>raw. t = normalizeTask B raw) \<and> normalized t)
   \<and> ((\<forall>t\<in>set (tasks s). normalized t) \<longrightarrow>
        (\<forall>t\<in>set (tasks (client_step B s op)). normalized t))
   \<and> ((\<forall>op\<in>set ops. \<forall>r\<in>set (incoming op). truthy (mongo_id r) \<or> plain_id r \<noteq> None) \<longrightarrow>
        (\<forall>t\<in>set (tasks (client_run B (init_manager now) ops)).
            mongo_id t \<noteq> None \<and> plain_id t \<noteq> None))"
proof -
  have init: "\<And>P. \<forall>t\<in>set (tasks (init_manager now)). P t"
    by (simp add: init_manager_def)
  have a: "\<forall>t\<in>set (tasks (client_run B (init_manager now) ops)).
       (\<exists>raw. t = normalizeTask B raw) \<and> normalized t"
    by (rule client_run_cache [OF init]) (auto simp: normalizeTask_normalized)
  have b: "(\<forall>t\<in>set (tasks s). normalized t) \<longrightarrow>
        (\<forall>t\<in>set (tasks (client_step B s op)). normalized t)"
    using client_step_cache [of s normalized op B] by (simp add: normalizeTask_normalized)
  have c: "(\<forall>op\<in>set ops. \<forall>r\<in>set (incoming op). truthy (mongo_id r) \<or> plain_id r \<noteq> None) \<longrightarrow>
        (\<forall>t\<in>set (tasks (client_run B (init_manager now) ops)).
            mongo_id t \<noteq> None \<and> plain_id t \<noteq> None)"
  proof
    assume w: "\<forall>op\<in>set ops. \<forall>r\<in>set (incoming op). truthy (mongo_id r) \<or> plain_id r \<noteq> None"
    show "\<forall>t\<in>set (tasks (client_run B (init_manager now) ops)).
            mongo_id t \<noteq> None \<and> plain_id t \<noteq> None"
      by (rule client_run_cache [OF init]) (use w normalizeTask_ids_defined in blast)
  qed
  from a b c show ?thesis by blast
qed

theorem cache_normalized_witness:
  "tasks (client_run example_builtins (init_manager 0) example_ops)
       = [normalizeTask example_builtins standup_moved]
   \<and> normalized (normalizeTask example_builtins standup_moved)
   \<and> mongo_id (normalizeTask example_builtins standup_moved) = Some ''42''
   \<and> plain_id (normalizeTask example_builtins standup_moved) = Some ''42''
   \<and> startTime (normalizeTask example_builtins standup_moved) = JDate 3600000
   \<and> duration (normalizeTask example_builtins standup_moved) = JNum 30
   \<and> tasks example_manager = [normalizeTask example_builtins standup]
   \<and> normalized (normalizeTask example_builtins standup)
   \<and> tasks (client_step example_builtins example_manager (Receive (TaskUpdated standup_moved)))
       = [normalizeTask example_builtins standup_moved]"
proof -
  have w: "\<forall>op\<in>set example_ops. \<forall>r\<in>set (incoming op). truthy (mongo_id r) \<or> plain_id r \<noteq> None"
    by (simp add: example_ops_def standup_def standup_moved_def truthy_def)
  have r: "tasks (client_run example_builtins (init_manager 0) example_ops)
       = [normalizeTask example_builtins standup_moved]"
    by (simp add: client_run_def example_ops_def loadTasksFromAPI_def handleTaskUpdated_def
        init_manager_def normalizeTask_def standup_def standup_moved_def js_or_def truthy_def)
  have v: "startTime (normalizeTask example_builtins standup_moved) = JDate 3600000"
    "duration (normalizeTask example_builtins standup_moved) = JNum 30"
    by (simp_all add: normalizeTask_def standup_def standup_moved_def example_builtins_def)
  have m: "tasks example_manager = [normalizeTask example_builtins standup]"
    by (simp add: example_manager_def)
  have u: "tasks (client_step example_builtins example_manager (Receive (TaskUpdated standup_moved)))
       = [normalizeTask example_builtins standup_moved]"
    by (simp add: handleTaskUpdated_def example_manager_def normalizeTask_def standup_def
        standup_moved_def js_or_def truthy_def)
  have k: "normalized (normalizeTask example_builtins standup)"
    by (simp add: normalized_def normalizeTask_def is_Date_def is_Number_def)
  note th = cache_normalized [of example_builtins 0 example_ops example_manager
      "Receive (TaskUpdated standup_moved)"]
  from th r have n: "normalized (normalizeTask example_builtins standup_moved)"
    by simp
  from th w r have "mongo_id (normalizeTask example_builtins standup_moved) \<noteq> None"
    and "plain_id (normalizeTask example_builtins standup_moved) \<noteq> None"
    by simp_all
  moreover have "mongo_id standup_moved = Some ''42''"
    by (simp add: standup_moved_def standup_def)
  ultimately have i: "mongo_id (normalizeTask example_builtins standup_moved) = Some ''42''"
    "plain_id (normalizeTask example_builtins standup_moved) = Some ''42''"
    by (simp_all add: normalizeTask_def js_or_def truthy_def)
  from th m k u have "normalized (normalizeTask example_builtins standup_moved)"
    by (simp del: client_step.simps)
  with r v m u k i show ?thesis
    by (simp del: client_step.simps)
qed

section \<open>Validation of a creation\<close>

lemma Task_validate_ok:
  assumes "body_title b = Val t" and "t \<noteq> []" and "body_startTime b = Val st"
    and "body_duration b = Val d"
    and "body_status b = None \<or> (\<exists>v. body_status b = Some v \<and> v \<in> set status_enum)"
  shows "Task_validate b = []"
  using assms
  by (auto simp: Task_validate_def required_string_def required_value_def enum_status_def)

lemma Task_validate_empty_title:
  assumes "body_title b = Val []"
  shows "\<exists>errs. Task_validate b = (''title'', Required) # errs"
  using assms by (simp add: Task_validate_def required_string_def)

text \<open>
  Claim C3 as stated fails: the server accepts a creation with duration 10. The
  schema has no minimum for \<open>duration\<close>, so the request is answered with status 201,
  the record is stored and the creation is broadcast.
\<close>

theorem create_duration_10_accepted:
  "post_tasks (Task_save ''65a0c1e2f3a4b5c6d7e8f901'') (body_X 10) []
     = \<lparr> http_status = 201, http_body = TaskJson (doc_X 10),
         published = [Task_created (doc_X 10) (Some (make_tempId ''1735722000000'' ''k3j9x0q2a''))],
         store = [doc_X 10] \<rparr>"
  by (simp add: post_tasks_def Task_save_def Task_validate_def required_string_def
      required_value_def enum_status_def status_enum_def body_X_def doc_X_def or_default_def
      truthy_def make_tempId_def Let_def)

text \<open>
  Claim C3, as amended. On the server, a creation with an empty title is answered with
  status 400 and a validation error that names \<open>title\<close>, and nothing is stored or
  broadcast; a creation with a non-empty title, a valid start time and any numeric
  duration (15, and also 10) is answered with status 201 and the stored record, which
  carries the assigned identifier and the submitted values. The bound of 15 minutes
  is the client's: the form check of \<open>saveTask\<close> rejects an empty title at the title
  field and a duration below 15 at the duration field, and submits from 15 on.
\<close>

theorem create_validation:
  "(body_title b = Val [] \<longrightarrow>
      (\<exists>errs. post_tasks (Task_save newId) b db
          = \<lparr> http_status = 400,
              http_body = ErrorJson (ValidationError ((''title'', Required) # errs)),
              published = [], store = db \<rparr>))
   \<and> (\<forall>t st d. body_title b = Val t \<and> t \<noteq> [] \<and> body_startTime b = Val st
          \<and> body_duration b = Val d
          \<and> (body_status b = None \<or> (\<exists>v. body_status b = Some v \<and> v \<in> set status_enum)) \<longrightarrow>
        (\<exists>task. http_status (post_tasks (Task_save newId) b db) = 201
           \<and> http_body (post_tasks (Task_save newId) b db) = TaskJson task
           \<and> store (post_tasks (Task_save newId) b db) = db @ [task]
           \<and> doc_id task = newId \<and> doc_title task = t \<and> doc_startTime task = st
           \<and> doc_duration task = d))
   \<and> (title_input = [] \<longrightarrow>
        saveTask_check title_input startTime_input duration_input
          = Rejected ''taskTitle'' ''Please enter a task title'')
   \<and> (\<forall>st m. title_input \<noteq> [] \<and> startTime_input = Some st \<and> duration_input = Some m \<longrightarrow>
        saveTask_check title_input startTime_input duration_input
          = (if m < 15 then Rejected ''taskDuration'' ''Task duration must be at least 15 minutes''
             else Submitted))"
proof -
  have a: "body_title b = Val [] \<longrightarrow>
      (\<exists>errs. post_tasks (Task_save newId) b db
          = \<lparr> http_status = 400,
              http_body = ErrorJson (ValidationError ((''title'', Required) # errs)),
              published = [], store = db \<rparr>)"
  proof
    assume e: "body_title b = Val []"
    let ?b = "b\<lparr> body_tempId := None \<rparr>"
    from e have "body_title ?b = Val []" by simp
    from Task_validate_empty_title [OF this]
    obtain errs where "Task_validate ?b = (''title'', Required) # errs" ..
    then have "Task_save newId ?b db = (Inl (ValidationError ((''title'', Required) # errs)), db)"
      by (simp add: Task_save_def)
    then have "post_tasks (Task_save newId) b db
          = \<lparr> http_status = 400,
              http_body = ErrorJson (ValidationError ((''title'', Required) # errs)),
              published = [], store = db \<rparr>"
      by (simp add: post_tasks_def)
    then show "\<exists>errs. post_tasks (Task_save newId) b db
          = \<lparr> http_status = 400,
              http_body = ErrorJson (ValidationError ((''title'', Required) # errs)),
              published = [], store = db \<rparr>" ..
  qed
  have b: "\<forall>t st d. body_title b = Val t \<and> t \<noteq> [] \<and> body_startTime b = Val st
          \<and> body_duration b = Val d
          \<and> (body_status b = None \<or> (\<exists>v. body_status b = Some v \<and> v \<in> set status_enum)) \<longrightarrow>
        (\<exists>task. http_status (post_tasks (Task_save newId) b db) = 201
           \<and> http_body (post_tasks (Task_save newId) b db) = TaskJson task
           \<and> store (post_tasks (Task_save newId) b db) = db @ [task]
           \<and> doc_id task = newId \<and> doc_title task = t \<and> doc_startTime task = st
           \<and> doc_duration task = d)"
  proof (intro allI impI)
    fix t st d
    assume h: "body_title b = Val t \<and> t \<noteq> [] \<and> body_startTime b = Val st
          \<and> body_duration b = Val d
          \<and> (body_status b = None \<or> (\<exists>v. body_status b = Some v \<and> v \<in> set status_enum))"
    let ?b = "b\<lparr> body_tempId := None \<rparr>"
    from h have "Task_validate ?b = []"
      by (intro Task_validate_ok [of ?b t st d]) simp_all
    with h show "\<exists>task. http_status (post_tasks (Task_save newId) b db) = 201
           \<and> http_body (post_tasks (Task_save newId) b db) = TaskJson task
           \<and> store (post_tasks (Task_save newId) b db) = db @ [task]
           \<and> doc_id task = newId \<and> doc_title task = t \<and> doc_startTime task = st
           \<and> doc_duration task = d"
      by (simp add: post_tasks_def Task_save_def Let_def)
  qed
  have c: "title_input = [] \<longrightarrow>
        saveTask_check title_input startTime_input duration_input
          = Rejected ''taskTitle'' ''Please enter a task title''"
    by (simp add: saveTask_check_def)
  have d: "\<forall>st m. title_input \<noteq> [] \<and> startTime_input = Some st \<and> duration_input = Some m \<longrightarrow>
        saveTask_check title_input startTime_input duration_input
          = (if m < 15 then Rejected ''taskDuration'' ''Task duration must be at least 15 minutes''
             else Submitted)"
    by (simp add: saveTask_check_def)
  from a b c d show ?thesis by blast
qed

theorem create_validation_witness:
  "body_title ((body_X 60)\<lparr> body_title := Val [] \<rparr>) = Val []
   \<and> http_status (post_tasks (Task_save ''65a0c1e2f3a4b5c6d7e8f901'')
                    ((body_X 60)\<lparr> body_title := Val [] \<rparr>) []) = 400
   \<and> body_title (body_X 15) = Val ''X''
   \<and> body_startTime (body_X 15) = Val 1735722000000
   \<and> body_duration (body_X 15) = Val 15
   \<and> body_status (body_X 15) = Some ''pending''
   \<and> http_status (post_tasks (Task_save ''65a0c1e2f3a4b5c6d7e8f901'') (body_X 15) []) = 201
   \<and> http_body (post_tasks (Task_save ''65a0c1e2f3a4b5c6d7e8f901'') (body_X 15) [])
       = TaskJson (doc_X 15)
   \<and> saveTask_check [] (Some 1735722000000) (Some 60)
       = Rejected ''taskTitle'' ''Please enter a task title''
   \<and> saveTask_check ''X'' (Some 1735722000000) (Some 10)
       = Rejected ''taskDuration'' ''Task duration must be at least 15 minutes''
   \<and> saveTask_check ''X'' (Some 1735722000000) (Some 15) = Submitted"
proof -
  let ?e = "(body_X 60)\<lparr> body_title := Val [] \<rparr>"
  let ?b = "body_X 15"
  let ?id = "''65a0c1e2f3a4b5c6d7e8f901''"
  have e: "body_title ?e = Val []"
    by simp
  have b: "body_title ?b = Val ''X''" "''X'' \<noteq> []" "body_startTime ?b = Val 1735722000000"
    "body_duration ?b = Val 15" "body_status ?b = Some ''pending''"
    "''pending'' \<in> set status_enum"
    by (simp_all add: body_X_def status_enum_def)
  from create_validation [of ?e ?id "[]" "[]" "Some 1735722000000" "Some 60"] e
  have 1: "http_status (post_tasks (Task_save ?id) ?e []) = 400"
    and 2: "saveTask_check [] (Some 1735722000000) (Some 60)
       = Rejected ''taskTitle'' ''Please enter a task title''"
    by auto
  note th = create_validation [of ?b ?id "[]" "''X''" "Some 1735722000000" "Some 10"]
  from th b have "\<exists>task. http_status (post_tasks (Task_save ?id) ?b []) = 201
           \<and> http_body (post_tasks (Task_save ?id) ?b []) = TaskJson task
           \<and> store (post_tasks (Task_save ?id) ?b []) = [] @ [task]
           \<and> doc_id task = ?id \<and> doc_title task = ''X'' \<and> doc_startTime task = 1735722000000
           \<and> doc_duration task = 15"
    by blast
  then have 3: "http_status (post_tasks (Task_save ?id) ?b []) = 201"
    by blast
  from th have 4: "saveTask_check ''X'' (Some 1735722000000) (Some 10)
       = Rejected ''taskDuration'' ''Task duration must be at least 15 minutes''"
    by auto
  from create_validation [of ?b ?id "[]" "''X''" "Some 1735722000000" "Some 15"]
  have 5: "saveTask_check ''X'' (Some 1735722000000) (Some 15) = Submitted"
    by auto
  have 6: "http_body (post_tasks (Task_save ?id) ?b []) = TaskJson (doc_X 15)"
    by (simp add: post_tasks_def Task_save_def Task_validate_def required_string_def
      required_value_def enum_status_def status_enum_def body_X_def doc_X_def or_default_def
      truthy_def make_tempId_def Let_def)
  from e b 1 2 3 4 5 6 show ?thesis
    by (simp del: One_nat_def)
qed

section \<open>Broadcasts of the route handlers\<close>

lemma post_tasks_saved:
  assumes "save (body\<lparr> body_tempId := None \<rparr>) db = (Inr task, db')"
  shows "post_tasks save body db
       = \<lparr> http_status = 201, http_body = TaskJson task,
           published = [Task_created task
                          (if truthy (body_tempId body) then body_tempId body else None)],
           store = db' \<rparr>"
  using assms by (simp add: post_tasks_def)

lemma post_tasks_threw:
  assumes "save (body\<lparr> body_tempId := None \<rparr>) db = (Inl error, db')"
  shows "post_tasks save body db
       = \<lparr> http_status = 400, http_body = ErrorJson error, published = [], store = db' \<rparr>"
  using assms by (simp add: post_tasks_def)

text \<open>One call of \<open>broadcast\<close> sends its message once to every open connection and
  to no other.\<close>

lemma broadcast_filter:
  "filter (\<lambda>sent. fst sent = k) (broadcast message clients)
     = broadcast message (filter (\<lambda>c. conn_id c = k) clients)"
  by (induction clients) (simp_all add: broadcast_def)

lemma filter_own_id:
  assumes "distinct (map conn_id clients)" and "client \<in> set clients"
  shows "filter (\<lambda>c. conn_id c = conn_id client) clients = [client]"
  using assms
proof (induction clients)
  case Nil
  then show ?case by simp
next
  case (Cons c clients)
  show ?case
  proof (cases "client = c")
    case True
    from Cons.prems(1) have "\<forall>x\<in>set clients. conn_id x \<noteq> conn_id c"
      by (auto simp: image_iff)
    then have "filter (\<lambda>x. conn_id x = conn_id c) clients = []"
      by (simp add: filter_empty_conv)
    with True show ?thesis by simp
  next
    case False
    with Cons.prems have "client \<in> set clients" and "conn_id c \<noteq> conn_id client"
      by (auto simp: image_iff)
    with Cons.IH Cons.prems(1) show ?thesis by simp
  qed
qed

lemma broadcast_once:
  assumes "distinct (map conn_id clients)" and "client \<in> set clients"
  shows "filter (\<lambda>sent. fst sent = conn_id client) (broadcast message clients)
       = (if readyState client = OPEN then [(conn_id client, message)] else [])"
proof -
  have "filter (\<lambda>sent. fst sent = conn_id client) (broadcast message clients)
      = broadcast message [client]"
    by (simp only: broadcast_filter filter_own_id [OF assms])
  then show ?thesis by (simp add: broadcast_def)
qed

text \<open>
  Claim C7. Whatever the storage operations do: when the operation of a create, update
  or delete request returns a record, the handler answers with success and calls
  \<open>broadcast\<close> exactly once, with the saved record (creation), the updated record
  (update) or the identifier of the request (deletion); the message of a creation
  carries the temporary identifier that \<open>createTask\<close> attached to the request,
  unchanged. When the operation throws or finds no record, the handler answers with an
  error and calls \<open>broadcast\<close> not at all.
\<close>

theorem broadcast_side_effect:
  "(\<forall>task db'. save (body\<lparr> body_tempId := None \<rparr>) db = (Inr task, db') \<longrightarrow>
       succeeded (post_tasks save body db)
     \<and> published (post_tasks save body db)
         = [Task_created task (if truthy (body_tempId body) then body_tempId body else None)]
     \<and> (body_tempId body = Some (make_tempId now_digits random_digits) \<longrightarrow>
          published (post_tasks save body db)
            = [Task_created task (Some (make_tempId now_digits random_digits))]))
   \<and> (\<forall>error db'. save (body\<lparr> body_tempId := None \<rparr>) db = (Inl error, db') \<longrightarrow>
       \<not> succeeded (post_tasks save body db) \<and> published (post_tasks save body db) = [])
   \<and> (\<forall>task db'. findByIdAndUpdate params_id body db = (Inr (Some task), db') \<longrightarrow>
       succeeded (put_tasks findByIdAndUpdate params_id body db)
     \<and> published (put_tasks findByIdAndUpdate params_id body db) = [Task_updated task])
   \<and> (\<forall>db'. findByIdAndUpdate params_id body db = (Inr None, db') \<longrightarrow>
       \<not> succeeded (put_tasks findByIdAndUpdate params_id body db)
     \<and> published (put_tasks findByIdAndUpdate params_id body db) = [])
   \<and> (\<forall>error db'. findByIdAndUpdate params_id body db = (Inl error, db') \<longrightarrow>
       \<not> succeeded (put_tasks findByIdAndUpdate params_id body db)
     \<and> published (put_tasks findByIdAndUpdate params_id body db) = [])
   \<and> (\<forall>task db'. findByIdAndDelete params_id db = (Inr (Some task), db') \<longrightarrow>
       succeeded (delete_tasks findByIdAndDelete params_id db)
     \<and> published (delete_tasks findByIdAndDelete params_id db) = [Task_deleted params_id])
   \<and> (\<forall>db'. findByIdAndDelete params_id db = (Inr None, db') \<longrightarrow>
       \<not> succeeded (delete_tasks findByIdAndDelete params_id db)
     \<and> published (delete_tasks findByIdAndDelete params_id db) = [])
   \<and> (\<forall>error db'. findByIdAndDelete params_id db = (Inl error, db') \<longrightarrow>
       \<not> succeeded (delete_tasks findByIdAndDelete params_id db)
     \<and> published (delete_tasks findByIdAndDelete params_id db) = [])"
proof -
  have t: "truthy (Some (make_tempId now_digits random_digits))"
    by (simp add: truthy_def make_tempId_def)
  have create_ok: "\<forall>task db'. save (body\<lparr> body_tempId := None \<rparr>) db = (Inr task, db') \<longrightarrow>
       succeeded (post_tasks save body db)
     \<and> published (post_tasks save body db)
         = [Task_created task (if truthy (body_tempId body) then body_tempId body else None)]
     \<and> (body_tempId body = Some (make_tempId now_digits random_digits) \<longrightarrow>
          published (post_tasks save body db)
            = [Task_created task (Some (make_tempId now_digits random_digits))])"
    using t by (auto simp: post_tasks_saved succeeded_def)
  have create_failed: "\<forall>error db'. save (body\<lparr> body_tempId := None \<rparr>) db = (Inl error, db') \<longrightarrow>
       \<not> succeeded (post_tasks save body db) \<and> published (post_tasks save body db) = []"
    by (simp add: post_tasks_threw succeeded_def)
  have update: "(\<forall>task db'. findByIdAndUpdate params_id body db = (Inr (Some task), db') \<longrightarrow>
       succeeded (put_tasks findByIdAndUpdate params_id body db)
     \<and> published (put_tasks findByIdAndUpdate params_id body db) = [Task_updated task])
   \<and> (\<forall>db'. findByIdAndUpdate params_id body db = (Inr None, db') \<longrightarrow>
       \<not> succeeded (put_tasks findByIdAndUpdate params_id body db)
     \<and> published (put_tasks findByIdAndUpdate params_id body db) = [])
   \<and> (\<forall>error db'. findByIdAndUpdate params_id body db = (Inl error, db') \<longrightarrow>
       \<not> succeeded (put_tasks findByIdAndUpdate params_id body db)
     \<and> published (put_tasks findByIdAndUpdate params_id body db) = [])"
    by (simp add: put_tasks_def succeeded_def)
  have delete: "(\<forall>task db'. findByIdAndDelete params_id db = (Inr (Some task), db') \<longrightarrow>
       succeeded (delete_tasks findByIdAndDelete params_id db)
     \<and> published (delete_tasks findByIdAndDelete params_id db) = [Task_deleted params_id])
   \<and> (\<forall>db'. findByIdAndDelete params_id db = (Inr None, db') \<longrightarrow>
       \<not> succeeded (delete_tasks findByIdAndDelete params_id db)
     \<and> published (delete_tasks findByIdAndDelete params_id db) = [])
   \<and> (\<forall>error db'. findByIdAndDelete params_id db = (Inl error, db') \<longrightarrow>
       \<not> succeeded (delete_tasks findByIdAndDelete params_id db)
     \<and> published (delete_tasks findByIdAndDelete params_id db) = [])"
    by (simp add: delete_tasks_def succeeded_def)
  from create_ok create_failed update delete show ?thesis
    by (intro conjI) (elim conjE, assumption)+
qed

theorem broadcast_side_effect_witness:
  "Task_save ''65a0c1e2f3a4b5c6d7e8f901'' ((body_X 15)\<lparr> body_tempId := None \<rparr>) []
     = (Inr (doc_X 15), [doc_X 15])
   \<and> body_tempId (body_X 15) = Some (make_tempId ''1735722000000'' ''k3j9x0q2a'')
   \<and> published (post_tasks (Task_save ''65a0c1e2f3a4b5c6d7e8f901'') (body_X 15) [])
       = [Task_created (doc_X 15) (Some (make_tempId ''1735722000000'' ''k3j9x0q2a''))]
   \<and> Task_save ''65a0c1e2f3a4b5c6d7e8f901'' ((body_X 15)\<lparr> body_title := Val [], body_tempId := None \<rparr>) []
       = (Inl (ValidationError [(''title'', Required)]), [])
   \<and> published (post_tasks (Task_save ''65a0c1e2f3a4b5c6d7e8f901'')
                  ((body_X 15)\<lparr> body_title := Val [] \<rparr>) []) = []
   \<and> list_findByIdAndUpdate ''65a0c1e2f3a4b5c6d7e8f901'' (body_X 30) [doc_X 15]
       = (Inr (Some (doc_X 30)), [doc_X 30])
   \<and> published (put_tasks list_findByIdAndUpdate ''65a0c1e2f3a4b5c6d7e8f901'' (body_X 30) [doc_X 15])
       = [Task_updated (doc_X 30)]
   \<and> list_findByIdAndUpdate ''65a0c1e2f3a4b5c6d7e8f901'' (body_X 30) [] = (Inr None, [])
   \<and> published (put_tasks list_findByIdAndUpdate ''65a0c1e2f3a4b5c6d7e8f901'' (body_X 30) []) = []
   \<and> published (put_tasks (\<lambda>i b. failing_store) ''65a0c1e2f3a4b5c6d7e8f901'' (body_X 30) [doc_X 15]) = []
   \<and> list_findByIdAndDelete ''65a0c1e2f3a4b5c6d7e8f901'' [doc_X 15] = (Inr (Some (doc_X 15)), [])
   \<and> published (delete_tasks list_findByIdAndDelete ''65a0c1e2f3a4b5c6d7e8f901'' [doc_X 15])
       = [Task_deleted ''65a0c1e2f3a4b5c6d7e8f901'']
   \<and> list_findByIdAndDelete ''65a0c1e2f3a4b5c6d7e8f901'' [] = (Inr None, [])
   \<and> published (delete_tasks list_findByIdAndDelete ''65a0c1e2f3a4b5c6d7e8f901'' []) = []
   \<and> published (delete_tasks (\<lambda>i. failing_store) ''65a0c1e2f3a4b5c6d7e8f901'' [doc_X 15]) = []"
proof -
  let ?id = "''65a0c1e2f3a4b5c6d7e8f901''"
  let ?bad = "(body_X 15)\<lparr> body_title := Val [] \<rparr>"
  have s1: "Task_save ?id ((body_X 15)\<lparr> body_tempId := None \<rparr>) [] = (Inr (doc_X 15), [doc_X 15])"
    by (simp add: Task_save_def Task_validate_def required_string_def required_value_def
        enum_status_def status_enum_def body_X_def doc_X_def or_default_def Let_def)
  have s2: "body_tempId (body_X 15) = Some (make_tempId ''1735722000000'' ''k3j9x0q2a'')"
    by (simp add: body_X_def)
  have s3: "Task_save ?id ((body_X 15)\<lparr> body_title := Val [], body_tempId := None \<rparr>) []
       = (Inl (ValidationError [(''title'', Required)]), [])"
    by (simp add: Task_save_def Task_validate_def required_string_def required_value_def
        enum_status_def status_enum_def body_X_def)
  have u1: "list_findByIdAndUpdate ?id (body_X 30) [doc_X 15] = (Inr (Some (doc_X 30)), [doc_X 30])"
    by (simp add: list_findByIdAndUpdate_def set_field_def or_default_def body_X_def
        doc_X_def Let_def)
  have u2: "list_findByIdAndUpdate ?id (body_X 30) [] = (Inr None, [])"
    by (simp add: list_findByIdAndUpdate_def)
  have u3: "(\<lambda>i b. failing_store) ?id (body_X 30) [doc_X 15]
      = (Inl (StoreError ''connection lost''), [doc_X 15])"
    by (simp add: failing_store_def)
  have d1: "list_findByIdAndDelete ?id [doc_X 15] = (Inr (Some (doc_X 15)), [])"
    by (simp add: list_findByIdAndDelete_def doc_X_def splice1_def)
  have d2: "list_findByIdAndDelete ?id [] = (Inr None, [])"
    by (simp add: list_findByIdAndDelete_def)
  have d3: "(\<lambda>i. failing_store) ?id [doc_X 15] = (Inl (StoreError ''connection lost''), [doc_X 15])"
    by (simp add: failing_store_def)
  from broadcast_side_effect [of "Task_save ?id" "body_X 15" "[]" "''1735722000000''"
      "''k3j9x0q2a''" list_findByIdAndUpdate ?id list_findByIdAndDelete] s1 s2
  have c1: "published (post_tasks (Task_save ?id) (body_X 15) [])
       = [Task_created (doc_X 15) (Some (make_tempId ''1735722000000'' ''k3j9x0q2a''))]"
    by blast
  from broadcast_side_effect [of "Task_save ?id" ?bad "[]" "''1735722000000''"
      "''k3j9x0q2a''" list_findByIdAndUpdate ?id list_findByIdAndDelete] s3
  have c2: "published (post_tasks (Task_save ?id) ?bad []) = []"
    by simp
  from broadcast_side_effect [of "Task_save ?id" "body_X 30" "[doc_X 15]" "''1735722000000''"
      "''k3j9x0q2a''" list_findByIdAndUpdate ?id list_findByIdAndDelete] u1 d1
  have c3: "published (put_tasks list_findByIdAndUpdate ?id (body_X 30) [doc_X 15])
       = [Task_updated (doc_X 30)]"
    and c6: "published (delete_tasks list_findByIdAndDelete ?id [doc_X 15]) = [Task_deleted ?id]"
    by blast+
  from broadcast_side_effect [of "Task_save ?id" "body_X 30" "[]" "''1735722000000''"
      "''k3j9x0q2a''" list_findByIdAndUpdate ?id list_findByIdAndDelete] u2 d2
  have c4: "published (put_tasks list_findByIdAndUpdate ?id (body_X 30) []) = []"
    and c7: "published (delete_tasks list_findByIdAndDelete ?id []) = []"
    by blast+
  from broadcast_side_effect [of "Task_save ?id" "body_X 30" "[doc_X 15]" "''1735722000000''"
      "''k3j9x0q2a''" "\<lambda>i b. failing_store" ?id "\<lambda>i. failing_store"] u3 d3
  have c5: "published (put_tasks (\<lambda>i b. failing_store) ?id (body_X 30) [doc_X 15]) = []"
    and c8: "published (delete_tasks (\<lambda>i. failing_store) ?id [doc_X 15]) = []"
    by blast+
  from s1 s2 s3 u1 u2 d1 d2 c1 c2 c3 c4 c5 c6 c7 c8 show ?thesis
    by (intro conjI)
qed

section \<open>The cache holds one entry per id\<close>

text \<open>
  The array \<open>tasks\<close> stands for a mapping from id to snapshot. Loading a list of
  records with distinct identifiers, the answer to a create request and the handlers of
  the push channel all keep at most one entry per \<open>_id\<close>, provided the records that
  come in carry a non-empty \<open>_id\<close>, as every record of the server does. The answer
  to an update request is not among them: the run \<open>overtaken_edit\<close> leaves two
  entries with one id.
\<close>

lemma distinct_splice1:
  assumes "distinct ys"
  shows "distinct (splice1 i ys)"
proof -
  from assms have "set (take i ys) \<inter> set (drop (Suc i) ys) = {}"
    by (simp add: set_take_disj_set_drop_if_distinct)
  with assms show ?thesis
    by (simp add: splice1_def)
qed

lemma map_splice1: "map f (splice1 i xs) = splice1 i (map f xs)"
  by (simp add: splice1_def take_map drop_map)

lemma handleTaskDeleted_distinct:
  assumes "distinct (map mongo_id (tasks s))"
  shows "distinct (map mongo_id (tasks (handleTaskDeleted data_id s)))"
  using assms
  by (auto simp: handleTaskDeleted_def map_splice1 distinct_splice1 split: option.splits)

lemma handleTaskUpdated_distinct:
  assumes "distinct (map mongo_id (tasks s))" and "truthy (mongo_id data)"
  shows "distinct (map mongo_id (tasks (handleTaskUpdated B data s)))"
proof (cases "findIndex (\<lambda>t. mongo_id t = mongo_id data) (tasks s)")
  case None
  with assms show ?thesis by (simp add: handleTaskUpdated_def)
next
  case (Some i)
  from findIndex_Some_D [OF Some] assms(2)
  have "mongo_id (normalizeTask B data) = mongo_id (tasks s ! i)" and "i < length (tasks s)"
    by (simp_all add: normalizeTask_mongo_id)
  then have "map mongo_id ((tasks s)[i := normalizeTask B data]) = map mongo_id (tasks s)"
    by (simp add: map_update list_update_same_conv)
  with Some assms(1) show ?thesis by (simp add: handleTaskUpdated_def)
qed

lemma handleTaskCreated_distinct:
  assumes "distinct (map mongo_id (tasks s))" and "truthy (mongo_id data)"
  shows "distinct (map mongo_id (tasks (handleTaskCreated B data s)))"
proof (cases "findIndex (\<lambda>t. mongo_id t = mongo_id data) (tasks s)")
  case None
  then have "mongo_id data \<notin> mongo_id ` set (tasks s)"
    by (auto simp: findIndex_None_iff)
  with None assms show ?thesis
    by (simp add: handleTaskCreated_def normalizeTask_mongo_id)
next
  case (Some i)
  with assms show ?thesis by (simp add: handleTaskCreated_def)
qed

lemma handleWebSocketMessage_distinct:
  assumes "distinct (map mongo_id (tasks s))"
    and "\<forall>r\<in>set (incoming (Receive m)). truthy (mongo_id r)"
  shows "distinct (map mongo_id (tasks (handleWebSocketMessage B m s)))"
proof (cases m)
  case (TaskCreated data)
  with assms handleTaskCreated_distinct [of s data B] show ?thesis
    by (simp split: option.splits)
next
  case (TaskUpdated data)
  with assms handleTaskUpdated_distinct [of s data B] show ?thesis by simp
next
  case (TaskDeleted data_id)
  with assms handleTaskDeleted_distinct [of s data_id] show ?thesis by simp
next
  case (TimeUpdate v)
  with assms show ?thesis by (simp add: handleTimeUpdate_def)
next
  case TimelineSynced
  with assms show ?thesis by simp
next
  case (Other ty)
  with assms show ?thesis by simp
qed

lemma saveTaskToAPI_created_distinct:
  assumes "distinct (map mongo_id (tasks s))" and "truthy (mongo_id newTask)"
  shows "distinct (map mongo_id (tasks (saveTaskToAPI_created B T newTask s)))"
proof (cases "find (\<lambda>t. mongo_id t = mongo_id newTask) (tasks s)")
  case None
  then have "mongo_id newTask \<notin> mongo_id ` set (tasks s)"
    by (auto simp: find_None_iff)
  with None assms show ?thesis
    by (simp add: saveTaskToAPI_created_def createTask_settled_def normalizeTask_mongo_id)
next
  case (Some a)
  with assms show ?thesis
    by (simp add: saveTaskToAPI_created_def createTask_settled_def)
qed

lemma loadTasksFromAPI_distinct:
  assumes "distinct (map mongo_id ts)" and "\<forall>r\<in>set ts. truthy (mongo_id r)"
  shows "distinct (map mongo_id (tasks (loadTasksFromAPI B (Some ts) s)))"
proof -
  from assms(2)
  have "map mongo_id (tasks (loadTasksFromAPI B (Some ts) s)) = map mongo_id ts"
    by (simp add: loadTasksFromAPI_def normalizeTask_mongo_id)
  with assms(1) show ?thesis
    by (simp only:)
qed

end
